theory Spec2Isabelle
  imports Main
begin

section \<open>Strings, records and errors\<close>

text \<open>
  A Python \<open>str\<close> is a sequence of Unicode code points, and the filter of this program
  looks at code points far beyond one byte, so a character is modelled by its code point
  (what \<open>ord\<close> returns) and a string by the list of its code points.
\<close>

type_synonym pychar = nat
type_synonym pystr = "pychar list"

definition u :: "string \<Rightarrow> pystr" where
  "u s = map of_char s"

text \<open>The exceptions the program can raise.\<close>

datatype error = ValueError | TypeError | IndexError | FileNotFoundError

text \<open>
  The dictionary built for each sentence, with its four fixed keys
  \<open>'id'\<close>, \<open>'words'\<close>, \<open>'relns'\<close>, \<open>'heads'\<close>.
\<close>

record example =
  ex_id :: pystr
  words :: "pystr list"
  relns :: "pystr list"
  heads :: "int list"

section \<open>String operations of the interpreter\<close>

text \<open>
  \<open>str.strip()\<close> without argument removes leading and trailing whitespace. The set of
  whitespace characters is the one of \<open>str.isspace\<close>; it is the same in every Python
  version that accepts the f-strings of this program.
\<close>

definition isspace :: "pychar \<Rightarrow> bool" where
  "isspace c =
     ((0x09 \<le> c \<and> c \<le> 0x0D) \<or> (0x1C \<le> c \<and> c \<le> 0x20) \<or> c = 0x85 \<or> c = 0xA0
      \<or> c = 0x1680 \<or> (0x2000 \<le> c \<and> c \<le> 0x200A) \<or> c = 0x2028 \<or> c = 0x2029
      \<or> c = 0x202F \<or> c = 0x205F \<or> c = 0x3000)"

definition strip :: "pystr \<Rightarrow> pystr" where
  "strip s = rev (dropWhile isspace (rev (dropWhile isspace s)))"

text \<open>
  \<open>s.split(sep)\<close> for a separator of one character: the fields between the occurrences of
  the separator, empty fields kept, so that the result is never empty.
\<close>

fun split :: "pychar \<Rightarrow> pystr \<Rightarrow> pystr list" where
  "split sep [] = [[]]"
| "split sep (c # cs) =
     (if c = sep then [] # split sep cs
      else (case split sep cs of [] \<Rightarrow> [[c]] | f # fs \<Rightarrow> (c # f) # fs))"

section \<open>The filter\<close>

definition is_chinese_char :: "nat \<Rightarrow> bool" where
  "is_chinese_char cp =
     (if (cp \<ge> 0x4E00 \<and> cp \<le> 0x9FFF)
        \<or> (cp \<ge> 0x3400 \<and> cp \<le> 0x4DBF)
        \<or> (cp \<ge> 0x20000 \<and> cp \<le> 0x2A6DF)
        \<or> (cp \<ge> 0x2A700 \<and> cp \<le> 0x2B73F)
        \<or> (cp \<ge> 0x2B740 \<and> cp \<le> 0x2B81F)
        \<or> (cp \<ge> 0x2B820 \<and> cp \<le> 0x2CEAF)
        \<or> (cp \<ge> 0xF900 \<and> cp \<le> 0xFAFF)
        \<or> (cp \<ge> 0x2F800 \<and> cp \<le> 0x2FA1F)
      then True else False)"

text \<open>
  The two nested loops of \<open>has_chinese_char\<close>, each leaving with \<open>True\<close> at the first
  character found: the inner one over the characters of a word, the outer one over the
  words. The function is handed the dictionary itself, not a copy; each loop takes the
  dictionary as it stands and gives it back with its answer, so that the call returns the
  answer and the dictionary as the caller finds it afterwards.
\<close>

fun chars_loop :: "pystr \<Rightarrow> example \<Rightarrow> bool \<times> example" where
  "chars_loop [] ex = (False, ex)"
| "chars_loop (char # rest) ex =
     (if is_chinese_char char then (True, ex) else chars_loop rest ex)"

fun words_loop :: "pystr list \<Rightarrow> example \<Rightarrow> bool \<times> example" where
  "words_loop [] ex = (False, ex)"
| "words_loop (word # rest) ex =
     (let (found, ex') = chars_loop word ex
      in if found then (True, ex') else words_loop rest ex')"

definition has_chinese_char :: "example \<Rightarrow> bool \<times> example" where
  "has_chinese_char ex = words_loop (words ex) ex"

text \<open>The range table as the specification lists it, with inclusive bounds.\<close>

definition ideographic_ranges :: "(nat \<times> nat) list" where
  "ideographic_ranges =
     [(0x4E00, 0x9FFF), (0x3400, 0x4DBF), (0x20000, 0x2A6DF), (0x2A700, 0x2B73F),
      (0x2B740, 0x2B81F), (0x2B820, 0x2CEAF), (0xF900, 0xFAFF), (0x2F800, 0x2FA1F)]"

definition in_ranges :: "nat \<Rightarrow> bool" where
  "in_ranges cp = list_ex (\<lambda>(lo, hi). lo \<le> cp \<and> cp \<le> hi) ideographic_ranges"

section \<open>The reconstruction of sentences\<close>

text \<open>
  Two built-in operations depend on tables of the interpreter's Unicode database, which
  differ between Python versions, and are parameters of the model:
  \<^item> \<open>isdigit\<close> stands for \<open>str.isdigit\<close> on one character;
  \<^item> \<open>to_int\<close> stands for \<open>int\<close> on a string, \<open>None\<close> being its \<open>ValueError\<close>.
\<close>

text \<open>
  \<open>get_word_data\<close> mutates the dictionary it is given and returns nothing; the model
  returns the dictionary after the call. The argument is \<open>None\<close> when no dictionary has
  been created yet. The order of the source is kept: the unpacking into ten names
  (\<open>ValueError\<close> for any other number of fields), the test for a compound word, the first
  subscript of the argument (\<open>TypeError\<close> on \<open>None\<close>), the conversion of the head.
  When the conversion raises, the word and the relation have been appended already; the
  exception is caught nowhere, so that this dictionary is not looked at again.
\<close>

definition get_word_data ::
  "(pystr \<Rightarrow> int option) \<Rightarrow> pystr \<Rightarrow> example option \<Rightarrow> error + example option" where
  "get_word_data to_int line ex =
     (let fields = split 0x09 (strip line) in
      if length fields \<noteq> 10 then Inl ValueError
      else
        let word_id = fields ! 0; word = fields ! 1; head = fields ! 6; reln = fields ! 7 in
        if 0x2D \<in> set word_id then Inr ex
        else
          (case ex of
             None \<Rightarrow> Inl TypeError
           | Some e \<Rightarrow>
               (case to_int head of
                  None \<Rightarrow> Inl ValueError
                | Some h \<Rightarrow>
                    Inr (Some (e\<lparr>words := words e @ [word],
                                 relns := relns e @ [reln],
                                 heads := heads e @ [h]\<rparr>)))))"

text \<open>The three local variables of \<open>get_examples_from_dataset\<close> that the loop updates.\<close>

record loop_state =
  filtered_examples :: nat
  preprocessed_dataset :: "example list"
  ex :: "example option"

definition initial_state :: loop_state where
  "initial_state = \<lparr>filtered_examples = 0, preprocessed_dataset = [], ex = None\<rparr>"

text \<open>
  The body of the loop, for one line. The dictionary of an example has four keys, so it
  is true as a condition exactly when it is not \<open>None\<close>. What is appended to the output
  is the dictionary as the call of the filter leaves it. \<open>line[0]\<close> raises on the empty
  string. \<open>0x0A\<close> is the line terminator, \<open>0x23\<close> is \<open>#\<close>, \<open>0x20\<close> the space.
\<close>

definition loop_body ::
  "(pychar \<Rightarrow> bool) \<Rightarrow> (pystr \<Rightarrow> int option) \<Rightarrow> loop_state \<Rightarrow> pystr \<Rightarrow> error + loop_state" where
  "loop_body isdigit to_int st line =
     (if line = [0x0A] then
        (case ex st of
           Some e \<Rightarrow>
             (let (chinese, e') = has_chinese_char e
              in if \<not> chinese
                 then Inr (st\<lparr>preprocessed_dataset := preprocessed_dataset st @ [e'],
                             ex := None\<rparr>)
                 else Inr (st\<lparr>filtered_examples := filtered_examples st + 1, ex := None\<rparr>))
         | None \<Rightarrow> Inr st)
      else if line = [] then Inl IndexError
      else if hd line = 0x23 then
        (if take 4 (drop 2 line) \<noteq> u ''text''
         then Inr (st\<lparr>ex := Some \<lparr>ex_id = last (split 0x20 (strip line)),
                                   words = [], relns = [], heads = []\<rparr>\<rparr>)
         else Inr st)
      else if isdigit (hd line) then
        (case get_word_data to_int line (ex st) of
           Inl err \<Rightarrow> Inl err
         | Inr ex' \<Rightarrow> Inr (st\<lparr>ex := ex'\<rparr>))
      else Inr st)"

text \<open>The loop over the lines; an exception raised by the body leaves it.\<close>

fun for_lines ::
  "(pychar \<Rightarrow> bool) \<Rightarrow> (pystr \<Rightarrow> int option) \<Rightarrow> loop_state \<Rightarrow> pystr list \<Rightarrow> error + loop_state" where
  "for_lines isdigit to_int st [] = Inr st"
| "for_lines isdigit to_int st (line # rest) =
     (case loop_body isdigit to_int st line of
        Inl err \<Rightarrow> Inl err
      | Inr st' \<Rightarrow> for_lines isdigit to_int st' rest)"

text \<open>
  \<open>f.readlines()\<close> on a file opened in text mode: the content cut after every line
  terminator, so that every line but the last ends with one, and the last does if the
  content does.
\<close>

fun readlines :: "pystr \<Rightarrow> pystr list" where
  "readlines [] = []"
| "readlines (c # cs) =
     (if c = 0x0A then [0x0A] # readlines cs
      else (case readlines cs of [] \<Rightarrow> [[c]] | l # ls \<Rightarrow> (c # l) # ls))"

text \<open>
  What the function reads and writes: the text files it can open, each as the list of
  lines \<open>readlines\<close> returns (every line with its terminator, the last one possibly
  without), the JSON files written so far, each as the list of dictionaries dumped, and the
  messages printed. The progress bar is left out, and opening the output file and dumping
  to it are taken to succeed.
\<close>

datatype message = Filtered nat | Done

record world =
  datasets :: "pystr \<Rightarrow> pystr list option"
  written :: "pystr \<Rightarrow> example list option"
  stdout :: "message list"

text \<open>
  The result is the exception that left the function, if any, and the world after the
  call. The output file is opened only after the loop has ended.
\<close>

definition get_examples_from_dataset ::
  "(pychar \<Rightarrow> bool) \<Rightarrow> (pystr \<Rightarrow> int option) \<Rightarrow> pystr \<Rightarrow> pystr \<Rightarrow> world \<Rightarrow> error option \<times> world" where
  "get_examples_from_dataset isdigit to_int dataset_filename output_filename w =
     (case datasets w dataset_filename of
        None \<Rightarrow> (Some FileNotFoundError, w)
      | Some lines \<Rightarrow>
          (case for_lines isdigit to_int initial_state lines of
             Inl err \<Rightarrow> (Some err, w)
           | Inr st \<Rightarrow>
               (None,
                w\<lparr>written := (written w)(output_filename \<mapsto> preprocessed_dataset st),
                  stdout := stdout w
                    @ (if filtered_examples st > 0 then [Filtered (filtered_examples st)] else [])
                    @ [Done]\<rparr>)))"

section \<open>The built-in operations on ASCII input\<close>

text \<open>
  For running the model on concrete input: \<open>str.isdigit\<close> and \<open>int\<close> as they are on
  strings whose digits are the ASCII ones. \<open>int\<close> strips whitespace, of which it does not
  count the four separators U+001C to U+001F that \<open>str.strip\<close> removes; it takes an
  optional sign and reads decimal digits, between any two of which one underscore may
  stand, and it refuses a numeral of more than 4300 digits, the default limit of the
  interpreter. Digits of other scripts, which Python accepts too, do not occur in the
  inputs below.
\<close>

definition ascii_isdigit :: "pychar \<Rightarrow> bool" where
  "ascii_isdigit c = (0x30 \<le> c \<and> c \<le> 0x39)"

fun digits_value :: "nat \<Rightarrow> pystr \<Rightarrow> nat option" where
  "digits_value acc [] = Some acc"
| "digits_value acc (c # cs) =
     (if ascii_isdigit c then digits_value (10 * acc + (c - 0x30)) cs
      else if c = 0x5F \<and> cs \<noteq> [] \<and> ascii_isdigit (hd cs) then digits_value acc cs
      else None)"

definition unsigned_value :: "pystr \<Rightarrow> nat option" where
  "unsigned_value s = (if s \<noteq> [] \<and> ascii_isdigit (hd s) then digits_value 0 s else None)"

definition int_space :: "pychar \<Rightarrow> bool" where
  "int_space c = (isspace c \<and> \<not> (0x1C \<le> c \<and> c \<le> 0x1F))"

definition int_strip :: "pystr \<Rightarrow> pystr" where
  "int_strip s = rev (dropWhile int_space (rev (dropWhile int_space s)))"

definition ascii_int :: "pystr \<Rightarrow> int option" where
  "ascii_int s =
     (if length (filter ascii_isdigit s) > 4300 then None
      else
        (case int_strip s of
           [] \<Rightarrow> None
         | c # cs \<Rightarrow>
             if c = 0x2D then map_option (\<lambda>n. - int n) (unsigned_value cs)
             else if c = 0x2B then map_option int (unsigned_value cs)
             else map_option int (unsigned_value (c # cs))))"

section \<open>Example inputs\<close>

fun join :: "pystr \<Rightarrow> pystr list \<Rightarrow> pystr" where
  "join sep [] = []"
| "join sep [x] = x"
| "join sep (x # y # zs) = x @ sep @ join sep (y # zs)"

text \<open>A token line from its fields, joined by tabs, with the line terminator.\<close>

definition token_line :: "pystr list \<Rightarrow> pystr" where
  "token_line cols = join [0x09] cols @ [0x0A]"

text \<open>
  The two sentences of the end-to-end scenario. The word of the second sentence is the
  two ideographs U+4F60 and U+597D, and its token line, the last line of the file, has no
  line terminator.
\<close>

definition s1_lines :: "pystr list" where
  "s1_lines =
     [u ''# sent_id = s1'' @ [0x0A],
      u ''# text = Hola mundo'' @ [0x0A],
      token_line (map u [''1'', ''Hola'', ''_'', ''_'', ''_'', ''_'', ''0'', ''root'', ''_'', ''_'']),
      token_line (map u [''2'', ''mundo'', ''_'', ''_'', ''_'', ''_'', ''1'', ''obj'', ''_'', ''_''])]"

definition s2_token :: pystr where
  "s2_token =
     join [0x09] ([u ''1'', [0x4F60, 0x597D]]
                  @ map u [''_'', ''_'', ''_'', ''_'', ''0'', ''root'', ''_'', ''_''])"

definition s2_lines :: "pystr list" where
  "s2_lines =
     [u ''# sent_id = s2'' @ [0x0A],
      u ''# text = '' @ [0x4F60, 0x597D] @ [0x0A],
      s2_token]"

definition scenario_lines :: "pystr list" where
  "scenario_lines = s1_lines @ [[0x0A]] @ s2_lines"

text \<open>The content of the scenario's file, character by character.\<close>

definition scenario_text :: pystr where
  "scenario_text = concat scenario_lines"

text \<open>The second sentence with its token line terminated, as inside a file.\<close>

definition s2_lines_nl :: "pystr list" where
  "s2_lines_nl =
     [u ''# sent_id = s2'' @ [0x0A],
      u ''# text = '' @ [0x4F60, 0x597D] @ [0x0A],
      s2_token @ [0x0A]]"

definition s1_record :: example where
  "s1_record = \<lparr>ex_id = u ''s1'', words = [u ''Hola'', u ''mundo''],
                 relns = [u ''root'', u ''obj''], heads = [0, 1]\<rparr>"

definition s2_record :: example where
  "s2_record = \<lparr>ex_id = u ''s2'', words = [[0x4F60, 0x597D]],
                 relns = [u ''root''], heads = [0]\<rparr>"

section \<open>Notions of the specification\<close>

text \<open>The alignment of the three sequences of a record.\<close>

definition aligned :: "example \<Rightarrow> bool" where
  "aligned e = (length (words e) = length (heads e) \<and> length (heads e) = length (relns e))"

definition all_aligned :: "loop_state \<Rightarrow> bool" where
  "all_aligned st =
     (list_all aligned (preprocessed_dataset st)
      \<and> (case ex st of None \<Rightarrow> True | Some e \<Rightarrow> aligned e))"

text \<open>
  The kinds of lines, by the branch of the loop body that handles them. A comment line
  starts with \<open>#\<close>; it is the sentence-identifier line unless the characters at positions
  2 to 5 are \<open>text\<close>. A token data line is one that reaches the third branch.
\<close>

definition comment_line :: "pystr \<Rightarrow> bool" where
  "comment_line l = (l \<noteq> [] \<and> hd l = 0x23)"

definition text_tagged :: "pystr \<Rightarrow> bool" where
  "text_tagged l = (take 4 (drop 2 l) = u ''text'')"

definition sent_id_line :: "pystr \<Rightarrow> bool" where
  "sent_id_line l = (comment_line l \<and> \<not> text_tagged l)"

definition token_data_line :: "(pychar \<Rightarrow> bool) \<Rightarrow> pystr \<Rightarrow> bool" where
  "token_data_line isdigit l = (l \<noteq> [0x0A] \<and> l \<noteq> [] \<and> hd l \<noteq> 0x23 \<and> isdigit (hd l))"

text \<open>
  A token data line that \<open>get_word_data\<close> accepts on an open record: ten fields, and a
  head that converts unless the line is a compound-span line.
\<close>

definition accepted_token :: "(pystr \<Rightarrow> int option) \<Rightarrow> pystr \<Rightarrow> bool" where
  "accepted_token to_int l =
     (let cols = split 0x09 (strip l)
      in length cols = 10 \<and> (0x2D \<in> set (cols ! 0) \<or> to_int (cols ! 6) \<noteq> None))"

text \<open>
  A sentence block: the sentence-identifier line, then free-text comment lines and
  accepted token data lines, and no blank line.
\<close>

definition block_line :: "(pychar \<Rightarrow> bool) \<Rightarrow> (pystr \<Rightarrow> int option) \<Rightarrow> pystr \<Rightarrow> bool" where
  "block_line isdigit to_int l =
     ((comment_line l \<and> text_tagged l) \<or> (token_data_line isdigit l \<and> accepted_token to_int l))"

definition sentence_block :: "(pychar \<Rightarrow> bool) \<Rightarrow> (pystr \<Rightarrow> int option) \<Rightarrow> pystr list \<Rightarrow> bool" where
  "sentence_block isdigit to_int b =
     (case b of [] \<Rightarrow> False
      | l # ls \<Rightarrow> sent_id_line l \<and> list_all (block_line isdigit to_int) ls)"

text \<open>The number of records finalized so far: those accepted and those filtered.\<close>

definition finalized :: "loop_state \<Rightarrow> nat" where
  "finalized st = length (preprocessed_dataset st) + filtered_examples st"

text \<open>
  The identifier as the specification words it: the final whitespace-separated field of
  the line without its trailing line terminator. The fields separated by whitespace are
  those of \<open>str.split()\<close> without argument: maximal runs of characters that are not
  whitespace.
\<close>

fun split_when :: "(pychar \<Rightarrow> bool) \<Rightarrow> pystr \<Rightarrow> pystr list" where
  "split_when p [] = [[]]"
| "split_when p (c # cs) =
     (if p c then [] # split_when p cs
      else (case split_when p cs of [] \<Rightarrow> [[c]] | f # fs \<Rightarrow> (c # f) # fs))"




section \<open>Further example inputs\<close>

text \<open>A world with one dataset file, for the development partition, and nothing written.\<close>

definition dev_conllu :: pystr where
  "dev_conllu = u ''es_gsd-ud-dev.conllu''"

definition dev_json :: pystr where
  "dev_json = u ''es_gsd-ud-dev.json''"

definition scenario_world :: "pystr list \<Rightarrow> world" where
  "scenario_world lines =
     \<lparr>datasets = [dev_conllu \<mapsto> lines], written = Map.empty, stdout = []\<rparr>"

text \<open>The sentence-identifier line of the second sentence.\<close>

definition s2_id_line :: pystr where
  "s2_id_line = u ''# sent_id = s2'' @ [0x0A]"


text \<open>The contraction \<open>del\<close> of \<open>de el\<close>: the compound-span line and its two components.\<close>

definition del_line :: pystr where
  "del_line = token_line (map u [''3-4'', ''del'', ''_'', ''_'', ''_'', ''_'', ''_'', ''_'', ''_'', ''_''])"

definition de_line :: pystr where
  "de_line = token_line (map u [''3'', ''de'', ''de'', ''ADP'', ''_'', ''_'', ''5'', ''case'', ''_'', ''_''])"

definition el_line :: pystr where
  "el_line = token_line (map u [''4'', ''el'', ''el'', ''DET'', ''_'', ''_'', ''5'', ''det'', ''_'', ''_''])"

text \<open>A token data line with nine fields only.\<close>

definition short_line :: pystr where
  "short_line = token_line (map u [''1'', ''Hola'', ''_'', ''_'', ''_'', ''_'', ''0'', ''root'', ''_''])"

section \<open>Properties of the filter\<close>

lemma is_chinese_char_ranges: "is_chinese_char cp = in_ranges cp"
  by (simp add: is_chinese_char_def in_ranges_def ideographic_ranges_def)

lemma chars_loop_eq: "chars_loop w d = ((\<exists>c \<in> set w. is_chinese_char c), d)"
  by (induction w) auto

lemma words_loop_eq:
  "words_loop ws d = ((\<exists>w \<in> set ws. \<exists>c \<in> set w. is_chinese_char c), d)"
  by (induction ws) (auto simp: chars_loop_eq)

lemma has_chinese_char_eq:
  "has_chinese_char d = ((\<exists>w \<in> set (words d). \<exists>c \<in> set w. is_chinese_char c), d)"
  by (simp add: has_chinese_char_def words_loop_eq)

section \<open>Properties of the reconstruction\<close>

lemma split_not_Nil: "split sep s \<noteq> []"
  by (induction s) (auto split: list.splits)

lemma for_lines_append:
  "for_lines isdigit to_int st (xs @ ys) =
     (case for_lines isdigit to_int st xs of
        Inl err \<Rightarrow> Inl err
      | Inr st' \<Rightarrow> for_lines isdigit to_int st' ys)"
  by (induction xs arbitrary: st) (auto split: sum.splits)

lemma get_word_data_None:
  "get_word_data to_int line None = Inr r \<Longrightarrow> r = None"
  by (auto simp: get_word_data_def Let_def split: if_splits)

lemma get_word_data_Some:
  "get_word_data to_int line (Some e) = Inr r \<Longrightarrow>
     r = Some e \<or>
     (\<exists>w h l. r = Some (e\<lparr>words := words e @ [w], relns := relns e @ [l], heads := heads e @ [h]\<rparr>))"
  by (auto simp: get_word_data_def Let_def split: if_splits option.splits)

lemma loop_body_all_aligned:
  assumes "loop_body isdigit to_int st line = Inr st'" and "all_aligned st"
  shows "all_aligned st'"
proof (cases "ex st")
  case None
  with assms show ?thesis
    by (auto simp: loop_body_def has_chinese_char_eq all_aligned_def aligned_def
             split: if_splits sum.splits dest: get_word_data_None)
next
  case (Some e)
  with assms show ?thesis
    by (auto simp: loop_body_def has_chinese_char_eq all_aligned_def aligned_def
             split: if_splits sum.splits dest!: get_word_data_Some)
qed

lemma for_lines_all_aligned:
  "for_lines isdigit to_int st lines = Inr st' \<Longrightarrow> all_aligned st \<Longrightarrow> all_aligned st'"
proof (induction lines arbitrary: st)
  case Nil
  then show ?case by simp
next
  case (Cons line rest)
  then show ?case
    by (auto split: sum.splits dest: loop_body_all_aligned)
qed

subsection \<open>Lines by kind\<close>

lemma loop_body_blank:
  "loop_body isdigit to_int st [0x0A] =
     (case ex st of
        Some e \<Rightarrow>
          if \<not> fst (has_chinese_char e)
          then Inr (st\<lparr>preprocessed_dataset := preprocessed_dataset st @ [e], ex := None\<rparr>)
          else Inr (st\<lparr>filtered_examples := filtered_examples st + 1, ex := None\<rparr>)
      | None \<Rightarrow> Inr st)"
  by (simp add: loop_body_def has_chinese_char_eq split: option.splits)

lemma loop_body_blank_closed:
  "ex st = None \<Longrightarrow> loop_body isdigit to_int st [0x0A] = Inr st"
  by (simp add: loop_body_def has_chinese_char_eq)

lemma loop_body_sent_id:
  "sent_id_line l \<Longrightarrow>
     loop_body isdigit to_int st l =
       Inr (st\<lparr>ex := Some \<lparr>ex_id = last (split 0x20 (strip l)),
                             words = [], relns = [], heads = []\<rparr>\<rparr>)"
  by (auto simp: loop_body_def sent_id_line_def comment_line_def text_tagged_def)

lemma loop_body_text:
  "comment_line l \<Longrightarrow> text_tagged l \<Longrightarrow> loop_body isdigit to_int st l = Inr st"
  by (auto simp: loop_body_def has_chinese_char_eq comment_line_def text_tagged_def)

lemma loop_body_token:
  "token_data_line isdigit l \<Longrightarrow>
     loop_body isdigit to_int st l =
       (case get_word_data to_int l (ex st) of
          Inl err \<Rightarrow> Inl err
        | Inr r \<Rightarrow> Inr (st\<lparr>ex := r\<rparr>))"
  by (simp add: loop_body_def has_chinese_char_eq token_data_line_def)

lemma get_word_data_accepted:
  "accepted_token to_int l \<Longrightarrow> \<exists>e'. get_word_data to_int l (Some e) = Inr (Some e')"
  by (auto simp: accepted_token_def get_word_data_def Let_def)

lemma loop_body_block_line:
  assumes "block_line isdigit to_int l"
  shows "\<exists>e'. \<forall>st. ex st = Some e \<longrightarrow> loop_body isdigit to_int st l = Inr (st\<lparr>ex := Some e'\<rparr>)"
proof -
  from assms consider "comment_line l" "text_tagged l"
    | "token_data_line isdigit l" "accepted_token to_int l"
    by (auto simp: block_line_def)
  then show ?thesis
  proof cases
    case 1
    have "loop_body isdigit to_int st l = Inr (st\<lparr>ex := Some e\<rparr>)" if "ex st = Some e" for st
    proof -
      have "st\<lparr>ex := Some e\<rparr> = st"
        using that by simp
      with 1 show ?thesis
        by (simp add: loop_body_text)
    qed
    then show ?thesis by blast
  next
    case 2
    from get_word_data_accepted [OF 2(2)] obtain e'
      where "get_word_data to_int l (Some e) = Inr (Some e')" by blast
    with 2(1) have "loop_body isdigit to_int st l = Inr (st\<lparr>ex := Some e'\<rparr>)"
      if "ex st = Some e" for st
      using that by (simp add: loop_body_token)
    then show ?thesis by blast
  qed
qed

lemma for_lines_block_lines:
  "list_all (block_line isdigit to_int) ls \<Longrightarrow>
     \<exists>e'. \<forall>st. ex st = Some e \<longrightarrow> for_lines isdigit to_int st ls = Inr (st\<lparr>ex := Some e'\<rparr>)"
proof (induction ls arbitrary: e)
  case Nil
  have "for_lines isdigit to_int st [] = Inr (st\<lparr>ex := Some e\<rparr>)" if "ex st = Some e" for st
  proof -
    have "st\<lparr>ex := Some e\<rparr> = st"
      using that by simp
    then show ?thesis by simp
  qed
  then show ?case by blast
next
  case (Cons l ls)
  from Cons.prems have "block_line isdigit to_int l" by simp
  from loop_body_block_line [OF this, of e] obtain e1
    where 1: "\<And>st. ex st = Some e \<Longrightarrow> loop_body isdigit to_int st l = Inr (st\<lparr>ex := Some e1\<rparr>)"
    by blast
  from Cons.prems have "list_all (block_line isdigit to_int) ls" by simp
  from Cons.IH [OF this, of e1] obtain e'
    where 2: "\<And>st. ex st = Some e1 \<Longrightarrow> for_lines isdigit to_int st ls = Inr (st\<lparr>ex := Some e'\<rparr>)"
    by blast
  have "for_lines isdigit to_int st (l # ls) = Inr (st\<lparr>ex := Some e'\<rparr>)" if "ex st = Some e" for st
    using 1 [OF that] 2 [of "st\<lparr>ex := Some e1\<rparr>"] by simp
  then show ?case by blast
qed

lemma for_lines_sentence_block:
  assumes "sentence_block isdigit to_int b"
  shows "\<exists>e. \<forall>st. for_lines isdigit to_int st b = Inr (st\<lparr>ex := Some e\<rparr>)"
proof -
  from assms obtain l ls where b: "b = l # ls" and l: "sent_id_line l"
    and ls: "list_all (block_line isdigit to_int) ls"
    by (auto simp: sentence_block_def split: list.splits)
  let ?e = "\<lparr>ex_id = last (split 0x20 (strip l)), words = [], relns = [], heads = []\<rparr>"
  from for_lines_block_lines [OF ls, of ?e] obtain e'
    where 1: "\<And>st. ex st = Some ?e \<Longrightarrow> for_lines isdigit to_int st ls = Inr (st\<lparr>ex := Some e'\<rparr>)"
    by blast
  have "for_lines isdigit to_int st b = Inr (st\<lparr>ex := Some e'\<rparr>)" for st
    using 1 [of "st\<lparr>ex := Some ?e\<rparr>"] b l by (simp add: loop_body_sent_id)
  then show ?thesis by blast
qed

lemma blanks_closed:
  "ex st = None \<Longrightarrow>
     for_lines isdigit to_int st (replicate k [0x0A] @ rest) = for_lines isdigit to_int st rest"
  by (induction k) (simp_all add: loop_body_blank_closed)

lemma loop_body_blank_closes:
  "\<exists>st'. loop_body isdigit to_int st [0x0A] = Inr st' \<and> ex st' = None"
  by (cases "ex st") (auto simp: loop_body_def has_chinese_char_eq)

lemma blanks_as_one:
  assumes "0 < n"
  shows "for_lines isdigit to_int st (replicate n [0x0A] @ rest) =
           for_lines isdigit to_int st ([0x0A] # rest)"
proof -
  from assms obtain k where n: "n = Suc k" by (cases n) auto
  obtain st' where 1: "loop_body isdigit to_int st [0x0A] = Inr st'" and 2: "ex st' = None"
    using loop_body_blank_closes by blast
  show ?thesis
    using blanks_closed [OF 2] by (simp add: n 1)
qed

lemma for_lines_raises:
  assumes "l \<in> set lines" and "\<And>st. \<exists>err. loop_body isdigit to_int st l = Inl err"
  shows "\<exists>err. for_lines isdigit to_int st lines = Inl err"
  using assms(1)
proof (induction lines arbitrary: st)
  case Nil
  then show ?case by simp
next
  case (Cons x xs)
  show ?case
  proof (cases "loop_body isdigit to_int st x")
    case (Inl err)
    then show ?thesis by simp
  next
    case (Inr st')
    with assms(2) [of st] have "x \<noteq> l" by auto
    with Cons.prems have "l \<in> set xs" by simp
    from Cons.IH [OF this] Inr show ?thesis by simp
  qed
qed

lemma loop_body_malformed:
  "token_data_line isdigit l \<Longrightarrow> length (split 0x09 (strip l)) \<noteq> 10 \<Longrightarrow>
     loop_body isdigit to_int st l = Inl ValueError"
  by (simp add: loop_body_token get_word_data_def)

lemma get_examples_raises:
  "datasets w fn = Some lines \<Longrightarrow> for_lines isdigit to_int initial_state lines = Inl err \<Longrightarrow>
     get_examples_from_dataset isdigit to_int fn out w = (Some err, w)"
  by (simp add: get_examples_from_dataset_def)


subsection \<open>The identifier as the specification words it\<close>



lemma split_when_none: "\<forall>c \<in> set s. \<not> p c \<Longrightarrow> split_when p s = [s]"
  by (induction s) auto









lemma loop_body_not_blank:
  assumes "l \<noteq> [0x0A]" and "loop_body isdigit to_int s l = Inr s'"
  shows "preprocessed_dataset s' = preprocessed_dataset s
       \<and> filtered_examples s' = filtered_examples s"
  using assms by (auto simp: loop_body_def split: if_splits sum.splits)

lemma for_lines_no_blank:
  "[0x0A] \<notin> set ls \<Longrightarrow> for_lines isdigit to_int s ls = Inr s' \<Longrightarrow>
     preprocessed_dataset s' = preprocessed_dataset s
     \<and> filtered_examples s' = filtered_examples s"
proof (induction ls arbitrary: s)
  case Nil
  then show ?case by simp
next
  case (Cons l ls)
  from Cons.prems obtain s1 where 1: "loop_body isdigit to_int s l = Inr s1"
    and 2: "for_lines isdigit to_int s1 ls = Inr s'"
    by (auto split: sum.splits)
  from Cons.prems have "l \<noteq> [0x0A]" and "[0x0A] \<notin> set ls"
    by auto
  with 1 2 Cons.IH [of s1] loop_body_not_blank [of l isdigit to_int s s1]
  show ?case by simp
qed

lemma record_of_run:
  assumes "\<forall>st. for_lines isdigit to_int st b = Inr (st\<lparr>ex := Some e\<rparr>)"
    and "for_lines isdigit to_int initial_state b = Inr (initial_state\<lparr>ex := Some r\<rparr>)"
  shows "e = r"
proof -
  from assms have "initial_state\<lparr>ex := Some e\<rparr> = initial_state\<lparr>ex := Some r\<rparr>"
    by simp
  then have "ex (initial_state\<lparr>ex := Some e\<rparr>) = ex (initial_state\<lparr>ex := Some r\<rparr>)"
    by (rule arg_cong)
  then show ?thesis
    by simp
qed

subsection \<open>The example inputs, run\<close>

lemmas run_defs = loop_body_def has_chinese_char_eq get_word_data_def token_line_def strip_def u_def
  isspace_def ascii_int_def int_strip_def int_space_def unsigned_value_def ascii_isdigit_def
  is_chinese_char_def
  Let_def

lemma s1_run:
  "for_lines ascii_isdigit ascii_int st s1_lines = Inr (st\<lparr>ex := Some s1_record\<rparr>)"
  by (simp add: s1_lines_def s1_record_def run_defs)

lemma s2_run:
  "for_lines ascii_isdigit ascii_int st s2_lines = Inr (st\<lparr>ex := Some s2_record\<rparr>)"
  by (simp add: s2_lines_def s2_token_def s2_record_def run_defs)

lemma s2_nl_run:
  "for_lines ascii_isdigit ascii_int st s2_lines_nl = Inr (st\<lparr>ex := Some s2_record\<rparr>)"
  by (simp add: s2_lines_nl_def s2_token_def s2_record_def run_defs)

lemma s1_accepted: "\<not> fst (has_chinese_char s1_record)"
  by (simp add: s1_record_def has_chinese_char_eq is_chinese_char_def u_def)

lemma s2_filtered: "fst (has_chinese_char s2_record)"
  by (simp add: s2_record_def has_chinese_char_eq is_chinese_char_def)

lemma scenario_run:
  "for_lines ascii_isdigit ascii_int initial_state scenario_lines =
     Inr \<lparr>filtered_examples = 0, preprocessed_dataset = [s1_record], ex = Some s2_record\<rparr>"
  by (simp add: scenario_lines_def for_lines_append s1_run s2_run loop_body_blank s1_accepted
        initial_state_def)

lemma scenario_first_run:
  "for_lines ascii_isdigit ascii_int initial_state (s1_lines @ [[0x0A]]) =
     Inr \<lparr>filtered_examples = 0, preprocessed_dataset = [s1_record], ex = None\<rparr>"
  by (simp add: for_lines_append s1_run loop_body_blank s1_accepted initial_state_def)

lemma s2_no_blank: "[0x0A] \<notin> set s2_lines"
  by (simp add: s2_lines_def s2_token_def u_def)

lemma s1_block: "sentence_block ascii_isdigit ascii_int s1_lines"
  by (simp add: s1_lines_def sentence_block_def sent_id_line_def comment_line_def
        text_tagged_def block_line_def token_data_line_def accepted_token_def run_defs)

lemma s2_block: "sentence_block ascii_isdigit ascii_int s2_lines"
  by (simp add: s2_lines_def s2_token_def sentence_block_def sent_id_line_def comment_line_def
        text_tagged_def block_line_def token_data_line_def accepted_token_def run_defs)

lemma s2_nl_block: "sentence_block ascii_isdigit ascii_int s2_lines_nl"
  by (simp add: s2_lines_nl_def s2_token_def sentence_block_def sent_id_line_def comment_line_def
        text_tagged_def block_line_def token_data_line_def accepted_token_def run_defs)

lemma readlines_scenario: "readlines scenario_text = scenario_lines"
  by (simp add: scenario_text_def scenario_lines_def s1_lines_def s2_lines_def s2_token_def
        token_line_def u_def)

lemma readlines_scenario_closed:
  "readlines (scenario_text @ [0x0A, 0x0A]) = s1_lines @ [[0x0A]] @ s2_lines_nl @ [[0x0A]]"
  by (simp add: scenario_text_def scenario_lines_def s1_lines_def s2_lines_def s2_lines_nl_def
        s2_token_def token_line_def u_def)

lemma scenario_closed_run:
  "for_lines ascii_isdigit ascii_int initial_state (readlines (scenario_text @ [0x0A, 0x0A])) =
     Inr \<lparr>filtered_examples = 1, preprocessed_dataset = [s1_record], ex = None\<rparr>"
  by (simp add: readlines_scenario_closed for_lines_append s1_run s2_nl_run loop_body_blank
        s1_accepted s2_filtered initial_state_def)

lemma readlines_three_blanks:
  "readlines (concat (s1_lines @ replicate 3 [0x0A] @ s2_lines_nl @ replicate 1 [0x0A]))
     = s1_lines @ replicate 3 [0x0A] @ s2_lines_nl @ replicate 1 [0x0A]"
  by (simp add: s1_lines_def s2_lines_nl_def s2_token_def token_line_def u_def numeral_3_eq_3)

lemma readlines_terminated:
  "readlines (scenario_text @ [0x0A]) = s1_lines @ replicate 1 [0x0A] @ s2_lines_nl"
  by (simp add: scenario_text_def scenario_lines_def s1_lines_def s2_lines_def s2_lines_nl_def
        s2_token_def token_line_def u_def)

lemma del_cols:
  "split 0x09 (strip del_line) =
     map u [''3-4'', ''del'', ''_'', ''_'', ''_'', ''_'', ''_'', ''_'', ''_'', ''_'']"
  by (simp add: del_line_def token_line_def strip_def isspace_def u_def)

lemma de_cols:
  "split 0x09 (strip de_line) =
     map u [''3'', ''de'', ''de'', ''ADP'', ''_'', ''_'', ''5'', ''case'', ''_'', ''_'']"
  by (simp add: de_line_def token_line_def strip_def isspace_def u_def)

lemma el_cols:
  "split 0x09 (strip el_line) =
     map u [''4'', ''el'', ''el'', ''DET'', ''_'', ''_'', ''5'', ''det'', ''_'', ''_'']"
  by (simp add: el_line_def token_line_def strip_def isspace_def u_def)

lemma ascii_int_5: "ascii_int (u ''5'') = Some 5"
  by (simp add: ascii_int_def int_strip_def int_space_def unsigned_value_def ascii_isdigit_def
        isspace_def u_def)

lemma short_token: "token_data_line ascii_isdigit short_line"
  by (simp add: token_data_line_def short_line_def token_line_def u_def ascii_isdigit_def)

lemma short_cols: "length (split 0x09 (strip short_line)) = 9"
  by (simp add: short_line_def token_line_def strip_def isspace_def u_def)

lemma de_token: "token_data_line ascii_isdigit de_line"
  by (simp add: token_data_line_def de_line_def token_line_def u_def ascii_isdigit_def)

lemma del_token: "token_data_line ascii_isdigit del_line"
  by (simp add: token_data_line_def del_line_def token_line_def u_def ascii_isdigit_def)

lemma s2_id_sent_id: "sent_id_line s2_id_line"
  by (simp add: sent_id_line_def comment_line_def text_tagged_def s2_id_line_def u_def)

lemma s2_id_field: "last (split 0x20 (strip s2_id_line)) = u ''s2''"
  by (simp add: s2_id_line_def strip_def isspace_def u_def)



lemma scenario_dataset: "datasets (scenario_world lines) dev_conllu = Some lines"
  by (simp add: scenario_world_def dev_conllu_def)

section \<open>The claims\<close>

text \<open>
  Claim C1, which the code does not satisfy: the loop finalizes a record on a blank line
  only, and nothing follows the loop but the message and the dump. On the input of the
  end-to-end scenario, whose last line is a token line, the record of \<open>s2\<close> is still
  open when the lines are exhausted; it is never passed to the filter, the output is the
  record of \<open>s1\<close>, no sentence is counted as filtered and no count is printed.
\<close>

theorem C1_counterexample:
  "fst (get_examples_from_dataset ascii_isdigit ascii_int dev_conllu dev_json
          (scenario_world (readlines scenario_text))) = None
   \<and> written (snd (get_examples_from_dataset ascii_isdigit ascii_int dev_conllu dev_json
          (scenario_world (readlines scenario_text)))) dev_json = Some [s1_record]
   \<and> stdout (snd (get_examples_from_dataset ascii_isdigit ascii_int dev_conllu dev_json
          (scenario_world (readlines scenario_text)))) = [Done]
   \<and> stdout (snd (get_examples_from_dataset ascii_isdigit ascii_int dev_conllu dev_json
          (scenario_world (readlines scenario_text)))) \<noteq> [Filtered 1, Done]
   \<and> for_lines ascii_isdigit ascii_int initial_state (readlines scenario_text) =
       Inr \<lparr>filtered_examples = 0, preprocessed_dataset = [s1_record], ex = Some s2_record\<rparr>"
  by (simp add: get_examples_from_dataset_def scenario_dataset readlines_scenario scenario_run)
     (simp add: scenario_world_def)

text \<open>
  Claim C1 as amended. A record is finalized by a blank line, which passes the open
  record to the filter and appends it to the output or counts it as filtered, and by
  nothing else: no other line changes the output sequence or the filtered count, so that
  the lines after the last blank line add nothing to either. When the lines are
  exhausted, what is written and what is reported are the output sequence and the
  filtered count as they stand: a record still open is dropped. The input of the
  end-to-end scenario gives the record of \<open>s1\<close> and no count; with its last line
  terminated and a blank line after it, it gives the record of \<open>s1\<close> and the count 1.
\<close>

theorem C1_end_of_stream:
  assumes "datasets w fn = Some lines"
    and "for_lines isdigit to_int initial_state lines = Inr st"
  shows "get_examples_from_dataset isdigit to_int fn out w =
           (None,
            w\<lparr>written := (written w)(out \<mapsto> preprocessed_dataset st),
              stdout := stdout w
                @ (if 0 < filtered_examples st then [Filtered (filtered_examples st)] else [])
                @ [Done]\<rparr>)
       \<and> (\<forall>s l s'. l \<noteq> [0x0A] \<longrightarrow> loop_body isdigit to_int s l = Inr s' \<longrightarrow>
             preprocessed_dataset s' = preprocessed_dataset s
             \<and> filtered_examples s' = filtered_examples s)
       \<and> (\<forall>pre tail st0. lines = pre @ tail \<longrightarrow> [0x0A] \<notin> set tail \<longrightarrow>
             for_lines isdigit to_int initial_state pre = Inr st0 \<longrightarrow>
             preprocessed_dataset st = preprocessed_dataset st0
             \<and> filtered_examples st = filtered_examples st0)
       \<and> (\<forall>s. loop_body isdigit to_int s [0x0A] =
             Inr (case ex s of
                    None \<Rightarrow> s
                  | Some e \<Rightarrow>
                      if fst (has_chinese_char e)
                      then s\<lparr>filtered_examples := filtered_examples s + 1, ex := None\<rparr>
                      else s\<lparr>preprocessed_dataset := preprocessed_dataset s @ [e], ex := None\<rparr>))
       \<and> get_examples_from_dataset ascii_isdigit ascii_int dev_conllu dev_json
             (scenario_world (readlines scenario_text))
           = (None, scenario_world (readlines scenario_text)
                      \<lparr>written := [dev_json \<mapsto> [s1_record]], stdout := [Done]\<rparr>)
       \<and> get_examples_from_dataset ascii_isdigit ascii_int dev_conllu dev_json
             (scenario_world (readlines (scenario_text @ [0x0A, 0x0A])))
           = (None, scenario_world (readlines (scenario_text @ [0x0A, 0x0A]))
                      \<lparr>written := [dev_json \<mapsto> [s1_record]], stdout := [Filtered 1, Done]\<rparr>)"
proof -
  have a: "get_examples_from_dataset isdigit to_int fn out w =
           (None,
            w\<lparr>written := (written w)(out \<mapsto> preprocessed_dataset st),
              stdout := stdout w
                @ (if 0 < filtered_examples st then [Filtered (filtered_examples st)] else [])
                @ [Done]\<rparr>)"
    using assms by (simp add: get_examples_from_dataset_def)
  have b: "\<forall>s l s'. l \<noteq> [0x0A] \<longrightarrow> loop_body isdigit to_int s l = Inr s' \<longrightarrow>
             preprocessed_dataset s' = preprocessed_dataset s
             \<and> filtered_examples s' = filtered_examples s"
    using loop_body_not_blank by blast
  have c: "\<forall>pre tail st0. lines = pre @ tail \<longrightarrow> [0x0A] \<notin> set tail \<longrightarrow>
             for_lines isdigit to_int initial_state pre = Inr st0 \<longrightarrow>
             preprocessed_dataset st = preprocessed_dataset st0
             \<and> filtered_examples st = filtered_examples st0"
  proof (intro allI impI)
    fix pre tail st0
    assume "lines = pre @ tail" and t: "[0x0A] \<notin> set tail"
      and "for_lines isdigit to_int initial_state pre = Inr st0"
    with assms(2) have "for_lines isdigit to_int st0 tail = Inr st"
      by (simp add: for_lines_append)
    with t show "preprocessed_dataset st = preprocessed_dataset st0
             \<and> filtered_examples st = filtered_examples st0"
      by (rule for_lines_no_blank)
  qed
  have d: "\<forall>s. loop_body isdigit to_int s [0x0A] =
             Inr (case ex s of
                    None \<Rightarrow> s
                  | Some e \<Rightarrow>
                      if fst (has_chinese_char e)
                      then s\<lparr>filtered_examples := filtered_examples s + 1, ex := None\<rparr>
                      else s\<lparr>preprocessed_dataset := preprocessed_dataset s @ [e], ex := None\<rparr>)"
    by (simp add: loop_body_blank split: option.splits)
  have e: "get_examples_from_dataset ascii_isdigit ascii_int dev_conllu dev_json
             (scenario_world (readlines scenario_text))
           = (None, scenario_world (readlines scenario_text)
                      \<lparr>written := [dev_json \<mapsto> [s1_record]], stdout := [Done]\<rparr>)"
    by (simp add: get_examples_from_dataset_def scenario_dataset readlines_scenario scenario_run)
       (simp add: scenario_world_def)
  have f: "get_examples_from_dataset ascii_isdigit ascii_int dev_conllu dev_json
             (scenario_world (readlines (scenario_text @ [0x0A, 0x0A])))
           = (None, scenario_world (readlines (scenario_text @ [0x0A, 0x0A]))
                      \<lparr>written := [dev_json \<mapsto> [s1_record]], stdout := [Filtered 1, Done]\<rparr>)"
    by (simp add: get_examples_from_dataset_def scenario_dataset scenario_closed_run)
       (simp add: scenario_world_def)
  from a b c d e f show ?thesis
    by blast
qed

theorem C1_witness:
  "fst (get_examples_from_dataset ascii_isdigit ascii_int dev_conllu dev_json
          (scenario_world (readlines (scenario_text @ [0x0A, 0x0A])))) = None
   \<and> written (snd (get_examples_from_dataset ascii_isdigit ascii_int dev_conllu dev_json
          (scenario_world (readlines (scenario_text @ [0x0A, 0x0A]))))) dev_json = Some [s1_record]
   \<and> stdout (snd (get_examples_from_dataset ascii_isdigit ascii_int dev_conllu dev_json
          (scenario_world (readlines (scenario_text @ [0x0A, 0x0A]))))) = [Filtered 1, Done]
   \<and> readlines scenario_text = (s1_lines @ [[0x0A]]) @ s2_lines
   \<and> [0x0A] \<notin> set s2_lines
   \<and> for_lines ascii_isdigit ascii_int initial_state (s1_lines @ [[0x0A]]) =
       Inr \<lparr>filtered_examples = 0, preprocessed_dataset = [s1_record], ex = None\<rparr>
   \<and> for_lines ascii_isdigit ascii_int initial_state (readlines scenario_text) =
       Inr \<lparr>filtered_examples = 0, preprocessed_dataset = [s1_record], ex = Some s2_record\<rparr>
   \<and> loop_body ascii_isdigit ascii_int
        \<lparr>filtered_examples = 0, preprocessed_dataset = [s1_record], ex = Some s2_record\<rparr> [0x0A] =
       Inr \<lparr>filtered_examples = 1, preprocessed_dataset = [s1_record], ex = None\<rparr>"
proof -
  let ?dropped = "\<lparr>filtered_examples = 0, preprocessed_dataset = [s1_record], ex = Some s2_record\<rparr>"
  have r: "readlines scenario_text = (s1_lines @ [[0x0A]]) @ s2_lines"
    by (simp add: readlines_scenario scenario_lines_def)
  have o: "for_lines ascii_isdigit ascii_int initial_state (readlines scenario_text) = Inr ?dropped"
    by (simp add: readlines_scenario scenario_run)
  from C1_end_of_stream [OF scenario_dataset scenario_closed_run, of dev_json]
  have 1: "get_examples_from_dataset ascii_isdigit ascii_int dev_conllu dev_json
          (scenario_world (readlines (scenario_text @ [0x0A, 0x0A]))) =
        (None, scenario_world (readlines (scenario_text @ [0x0A, 0x0A]))
           \<lparr>written := (written (scenario_world (readlines (scenario_text @ [0x0A, 0x0A]))))
                          (dev_json \<mapsto> [s1_record]),
             stdout := stdout (scenario_world (readlines (scenario_text @ [0x0A, 0x0A])))
                         @ [Filtered 1, Done]\<rparr>)"
    by simp
  from C1_end_of_stream [OF scenario_dataset o, of dev_json]
  have 2: "loop_body ascii_isdigit ascii_int ?dropped [0x0A] =
       Inr \<lparr>filtered_examples = 1, preprocessed_dataset = [s1_record], ex = None\<rparr>"
    by (simp add: s2_filtered)
  from 1 2 r o s2_no_blank scenario_first_run show ?thesis
    by (simp add: scenario_world_def)
qed

text \<open>
  Claim C2. \<open>has_chinese_char\<close> returns true if and only if at least one character of
  at least one string of the words of the record has a code point in one of the eight
  inclusive ranges of the table; the bounds are exact: U+4DBF is ideographic, U+4DC0 is
  not.
\<close>

theorem C2_has_chinese_char:
  "(fst (has_chinese_char r) \<longleftrightarrow> (\<exists>w \<in> set (words r). \<exists>c \<in> set w. in_ranges c))
   \<and> is_chinese_char 0x4DBF \<and> \<not> is_chinese_char 0x4DC0"
  by (simp add: has_chinese_char_eq is_chinese_char_ranges)
     (simp add: in_ranges_def ideographic_ranges_def)

theorem C2_witness:
  "fst (has_chinese_char
         \<lparr>ex_id = u ''s'', words = [u ''hello'', [0x4E16]], relns = [], heads = []\<rparr>)
   \<and> \<not> fst (has_chinese_char
         \<lparr>ex_id = u ''s'', words = [u ''hola'', u ''mundo''], relns = [], heads = []\<rparr>)"
  using
    C2_has_chinese_char [of "\<lparr>ex_id = u ''s'', words = [u ''hello'', [0x4E16]], relns = [], heads = []\<rparr>"]
    C2_has_chinese_char [of "\<lparr>ex_id = u ''s'', words = [u ''hola'', u ''mundo''], relns = [], heads = []\<rparr>"]
  by (simp add: in_ranges_def ideographic_ranges_def u_def)

text \<open>
  Claim C3. Every record that reaches finalization has words, heads and relns of equal
  length. After any number of lines read without an exception, every record in the
  output sequence is aligned, and so is the open record, which is the one a following
  blank line would finalize; so is every record of the file written.
\<close>

theorem C3_alignment:
  assumes "for_lines isdigit to_int initial_state lines = Inr st"
  shows "(\<forall>e \<in> set (preprocessed_dataset st). aligned e)
       \<and> (\<forall>e. ex st = Some e \<longrightarrow> aligned e)
       \<and> (datasets w fn = Some lines \<longrightarrow>
            (\<forall>ds. written (snd (get_examples_from_dataset isdigit to_int fn out w)) out = Some ds
                 \<longrightarrow> (\<forall>e \<in> set ds. aligned e)))"
proof -
  have "all_aligned initial_state"
    by (simp add: all_aligned_def initial_state_def)
  with assms have "all_aligned st"
    by (rule for_lines_all_aligned)
  then have 1: "\<forall>e \<in> set (preprocessed_dataset st). aligned e"
    and 2: "\<forall>e. ex st = Some e \<longrightarrow> aligned e"
    by (auto simp: all_aligned_def list_all_iff)
  have "written (snd (get_examples_from_dataset isdigit to_int fn out w)) out
          = Some (preprocessed_dataset st)"
    if "datasets w fn = Some lines"
    using that assms by (simp add: get_examples_from_dataset_def)
  with 1 2 show ?thesis
    by simp
qed

theorem C3_witness:
  "for_lines ascii_isdigit ascii_int initial_state scenario_lines =
     Inr \<lparr>filtered_examples = 0, preprocessed_dataset = [s1_record], ex = Some s2_record\<rparr>
   \<and> aligned s1_record \<and> aligned s2_record
   \<and> written (snd (get_examples_from_dataset ascii_isdigit ascii_int dev_conllu dev_json
          (scenario_world scenario_lines))) dev_json = Some [s1_record]"
proof -
  have "written (snd (get_examples_from_dataset ascii_isdigit ascii_int dev_conllu dev_json
          (scenario_world scenario_lines))) dev_json = Some [s1_record]"
    by (simp add: get_examples_from_dataset_def scenario_dataset scenario_run)
  then show ?thesis
    using C3_alignment [OF scenario_run, of "scenario_world scenario_lines" dev_conllu dev_json]
      scenario_run scenario_dataset
    by simp
qed

text \<open>
  Claim C4. A token data line whose index field contains \<open>-\<close> leaves the record as it
  is: with ten fields \<open>get_word_data\<close> returns without touching it (whether a record is
  open or not), and with another number of fields the unpacking has raised before. A
  line with ten fields and an index without \<open>-\<close> appends its surface form, its head
  converted to an integer and its relation label at the end of the three sequences.
\<close>

theorem C4_compound_elision:
  assumes "cols = split 0x09 (strip line)"
  shows "(0x2D \<in> set (cols ! 0) \<longrightarrow>
            get_word_data to_int line r = (if length cols = 10 then Inr r else Inl ValueError))
       \<and> (0x2D \<notin> set (cols ! 0) \<longrightarrow> length cols = 10 \<longrightarrow> to_int (cols ! 6) = Some h \<longrightarrow>
            get_word_data to_int line (Some e) =
              Inr (Some (e\<lparr>words := words e @ [cols ! 1],
                           relns := relns e @ [cols ! 7],
                           heads := heads e @ [h]\<rparr>)))"
  using assms by (simp add: get_word_data_def Let_def)

theorem C4_witness:
  "get_word_data ascii_int del_line (Some s1_record) = Inr (Some s1_record)
   \<and> get_word_data ascii_int de_line (Some s1_record) =
       Inr (Some (s1_record\<lparr>words := words s1_record @ [u ''de''],
                            relns := relns s1_record @ [u ''case''],
                            heads := heads s1_record @ [5]\<rparr>))
   \<and> get_word_data ascii_int el_line (Some s1_record) =
       Inr (Some (s1_record\<lparr>words := words s1_record @ [u ''el''],
                            relns := relns s1_record @ [u ''det''],
                            heads := heads s1_record @ [5]\<rparr>))"
  using
    C4_compound_elision [OF refl, of del_line ascii_int "Some s1_record"]
    C4_compound_elision [OF refl, of de_line ascii_int None 5 s1_record]
    C4_compound_elision [OF refl, of el_line ascii_int None 5 s1_record]
  by (simp add: del_cols de_cols el_cols ascii_int_5) (simp add: u_def)

text \<open>
  Claim C5, which the code does not satisfy as worded: two sentence blocks separated by
  exactly one blank line give one finalized record, not two, when no blank line follows
  the second block, whether its last line is terminated or not. The input of the
  end-to-end scenario is such an input.
\<close>

theorem C5_counterexample:
  "sentence_block ascii_isdigit ascii_int s1_lines
   \<and> sentence_block ascii_isdigit ascii_int s2_lines
   \<and> sentence_block ascii_isdigit ascii_int s2_lines_nl
   \<and> readlines scenario_text = s1_lines @ replicate 1 [0x0A] @ s2_lines
   \<and> for_lines ascii_isdigit ascii_int initial_state (s1_lines @ replicate 1 [0x0A] @ s2_lines)
       = Inr \<lparr>filtered_examples = 0, preprocessed_dataset = [s1_record], ex = Some s2_record\<rparr>
   \<and> readlines (scenario_text @ [0x0A]) = s1_lines @ replicate 1 [0x0A] @ s2_lines_nl
   \<and> for_lines ascii_isdigit ascii_int initial_state (s1_lines @ replicate 1 [0x0A] @ s2_lines_nl)
       = Inr \<lparr>filtered_examples = 0, preprocessed_dataset = [s1_record], ex = Some s2_record\<rparr>
   \<and> finalized \<lparr>filtered_examples = 0, preprocessed_dataset = [s1_record], ex = Some s2_record\<rparr> = 1
   \<and> finalized \<lparr>filtered_examples = 0, preprocessed_dataset = [s1_record], ex = Some s2_record\<rparr>
       \<noteq> 2"
proof -
  have "for_lines ascii_isdigit ascii_int initial_state (s1_lines @ replicate 1 [0x0A] @ s2_lines)
       = Inr \<lparr>filtered_examples = 0, preprocessed_dataset = [s1_record], ex = Some s2_record\<rparr>"
    using scenario_run by (simp add: scenario_lines_def)
  moreover have "for_lines ascii_isdigit ascii_int initial_state
         (s1_lines @ replicate 1 [0x0A] @ s2_lines_nl)
       = Inr \<lparr>filtered_examples = 0, preprocessed_dataset = [s1_record], ex = Some s2_record\<rparr>"
    by (simp add: for_lines_append s1_run s2_nl_run loop_body_blank s1_accepted initial_state_def)
  moreover have "readlines scenario_text = s1_lines @ replicate 1 [0x0A] @ s2_lines"
    by (simp add: readlines_scenario scenario_lines_def)
  ultimately show ?thesis
    using s1_block s2_block s2_nl_block readlines_terminated by (simp add: finalized_def)
qed

text \<open>
  Claim C5 as amended. Two sentence blocks, the second followed by at least one blank
  line, give exactly two finalized records, whether one blank line or several stand
  between them: the records finalized are the one of the first block and the one of the
  second, each accepted or filtered, and no other; the run is the same as with single
  blank lines, and a blank line met when no record is open changes nothing. When no
  blank line follows the second block, the record of the first block alone is finalized
  and the record of the second is left open.
\<close>

theorem C5_boundaries:
  assumes "sentence_block isdigit to_int b1" and "sentence_block isdigit to_int b2"
    and "0 < n"
  shows "(\<exists>e1 e2.
            (\<forall>st. for_lines isdigit to_int st b1 = Inr (st\<lparr>ex := Some e1\<rparr>))
          \<and> (\<forall>st. for_lines isdigit to_int st b2 = Inr (st\<lparr>ex := Some e2\<rparr>))
          \<and> (0 < m \<longrightarrow>
               for_lines isdigit to_int initial_state
                 (b1 @ replicate n [0x0A] @ b2 @ replicate m [0x0A])
               = Inr \<lparr>filtered_examples = length (filter (\<lambda>e. fst (has_chinese_char e)) [e1, e2]),
                      preprocessed_dataset = filter (\<lambda>e. \<not> fst (has_chinese_char e)) [e1, e2],
                      ex = None\<rparr>)
          \<and> for_lines isdigit to_int initial_state (b1 @ replicate n [0x0A] @ b2)
             = Inr \<lparr>filtered_examples = length (filter (\<lambda>e. fst (has_chinese_char e)) [e1]),
                    preprocessed_dataset = filter (\<lambda>e. \<not> fst (has_chinese_char e)) [e1],
                    ex = Some e2\<rparr>)
       \<and> (0 < m \<longrightarrow>
            (\<exists>st. for_lines isdigit to_int initial_state
                    (b1 @ replicate n [0x0A] @ b2 @ replicate m [0x0A]) = Inr st
                 \<and> ex st = None \<and> finalized st = 2))
       \<and> (\<exists>st. for_lines isdigit to_int initial_state (b1 @ replicate n [0x0A] @ b2) = Inr st
              \<and> ex st \<noteq> None \<and> finalized st = 1)
       \<and> (0 < m \<longrightarrow>
            for_lines isdigit to_int initial_state
              (b1 @ replicate n [0x0A] @ b2 @ replicate m [0x0A])
            = for_lines isdigit to_int initial_state (b1 @ [[0x0A]] @ b2 @ [[0x0A]]))
       \<and> (\<forall>st. ex st = None \<longrightarrow> loop_body isdigit to_int st [0x0A] = Inr st)"
proof -
  let ?run = "for_lines isdigit to_int"
  let ?input = "b1 @ replicate n [0x0A] @ b2 @ replicate m [0x0A]"
  let ?open = "b1 @ replicate n [0x0A] @ b2"
  have between: "?run st (replicate n [0x0A] @ rest) = ?run st ([0x0A] # rest)" for st rest
    using assms(3) by (rule blanks_as_one)
  have same: "?run initial_state ?input = ?run initial_state (b1 @ [[0x0A]] @ b2 @ [[0x0A]])"
    if "0 < m"
  proof -
    have "?run st (b2 @ replicate m [0x0A]) = ?run st (b2 @ [[0x0A]])" for st
      using blanks_as_one [OF that, of isdigit to_int _ "[]"]
      by (simp add: for_lines_append split: sum.splits)
    then have "?run st (replicate n [0x0A] @ b2 @ replicate m [0x0A])
                 = ?run st ([[0x0A]] @ b2 @ [[0x0A]])" for st
      using between [of st] by (simp split: sum.splits)
    then show ?thesis
      by (simp add: for_lines_append [of _ _ _ b1] split: sum.splits)
  qed
  obtain e1 where 1: "\<And>st. ?run st b1 = Inr (st\<lparr>ex := Some e1\<rparr>)"
    using for_lines_sentence_block [OF assms(1)] by blast
  obtain e2 where 2: "\<And>st. ?run st b2 = Inr (st\<lparr>ex := Some e2\<rparr>)"
    using for_lines_sentence_block [OF assms(2)] by blast
  let ?final = "\<lparr>filtered_examples = length (filter (\<lambda>e. fst (has_chinese_char e)) [e1, e2]),
                 preprocessed_dataset = filter (\<lambda>e. \<not> fst (has_chinese_char e)) [e1, e2],
                 ex = None\<rparr>"
  let ?half = "\<lparr>filtered_examples = length (filter (\<lambda>e. fst (has_chinese_char e)) [e1]),
                preprocessed_dataset = filter (\<lambda>e. \<not> fst (has_chinese_char e)) [e1],
                ex = Some e2\<rparr>"
  have "?run initial_state (b1 @ [[0x0A]] @ b2 @ [[0x0A]]) = Inr ?final"
    by (simp add: for_lines_append 1 2 loop_body_blank initial_state_def)
  with same have 3: "0 < m \<longrightarrow> ?run initial_state ?input = Inr ?final"
    by simp
  have "?run initial_state (b1 @ [0x0A] # b2) = Inr ?half"
    by (simp add: for_lines_append 1 2 loop_body_blank initial_state_def)
  then have 4: "?run initial_state ?open = Inr ?half"
    using between [of _ b2] by (simp add: for_lines_append [of _ _ _ b1] 1)
  have 5: "finalized ?final = 2" and 6: "finalized ?half = 1"
    by (simp_all add: finalized_def)
  from 3 5 have 7: "0 < m \<longrightarrow> (\<exists>st. ?run initial_state ?input = Inr st \<and> ex st = None
      \<and> finalized st = 2)"
    by simp
  from 4 6 have 8: "\<exists>st. ?run initial_state ?open = Inr st \<and> ex st \<noteq> None \<and> finalized st = 1"
    by simp
  from 1 2 3 4 have 9: "\<exists>e1 e2.
            (\<forall>st. ?run st b1 = Inr (st\<lparr>ex := Some e1\<rparr>))
          \<and> (\<forall>st. ?run st b2 = Inr (st\<lparr>ex := Some e2\<rparr>))
          \<and> (0 < m \<longrightarrow> ?run initial_state ?input
               = Inr \<lparr>filtered_examples = length (filter (\<lambda>e. fst (has_chinese_char e)) [e1, e2]),
                      preprocessed_dataset = filter (\<lambda>e. \<not> fst (has_chinese_char e)) [e1, e2],
                      ex = None\<rparr>)
          \<and> ?run initial_state ?open
             = Inr \<lparr>filtered_examples = length (filter (\<lambda>e. fst (has_chinese_char e)) [e1]),
                    preprocessed_dataset = filter (\<lambda>e. \<not> fst (has_chinese_char e)) [e1],
                    ex = Some e2\<rparr>"
    by blast
  from 7 8 9 same show ?thesis
    by (simp add: loop_body_blank_closed)
qed

theorem C5_witness:
  "sentence_block ascii_isdigit ascii_int s1_lines
   \<and> sentence_block ascii_isdigit ascii_int s2_lines_nl
   \<and> readlines (concat (s1_lines @ replicate 3 [0x0A] @ s2_lines_nl @ replicate 1 [0x0A]))
       = s1_lines @ replicate 3 [0x0A] @ s2_lines_nl @ replicate 1 [0x0A]
   \<and> for_lines ascii_isdigit ascii_int initial_state
         (s1_lines @ replicate 3 [0x0A] @ s2_lines_nl @ replicate 1 [0x0A])
       = Inr \<lparr>filtered_examples = 1, preprocessed_dataset = [s1_record], ex = None\<rparr>
   \<and> for_lines ascii_isdigit ascii_int initial_state (s1_lines @ replicate 3 [0x0A] @ s2_lines_nl)
       = Inr \<lparr>filtered_examples = 0, preprocessed_dataset = [s1_record], ex = Some s2_record\<rparr>"
proof -
  have "0 < (3::nat)"
    by simp
  from C5_boundaries [OF s1_block s2_nl_block this, of 1]
  have "\<exists>e1 e2.
            (\<forall>st. for_lines ascii_isdigit ascii_int st s1_lines = Inr (st\<lparr>ex := Some e1\<rparr>))
          \<and> (\<forall>st. for_lines ascii_isdigit ascii_int st s2_lines_nl = Inr (st\<lparr>ex := Some e2\<rparr>))
          \<and> (0 < (1::nat) \<longrightarrow>
               for_lines ascii_isdigit ascii_int initial_state
                 (s1_lines @ replicate 3 [0x0A] @ s2_lines_nl @ replicate 1 [0x0A])
               = Inr \<lparr>filtered_examples = length (filter (\<lambda>e. fst (has_chinese_char e)) [e1, e2]),
                      preprocessed_dataset = filter (\<lambda>e. \<not> fst (has_chinese_char e)) [e1, e2],
                      ex = None\<rparr>)
          \<and> for_lines ascii_isdigit ascii_int initial_state
               (s1_lines @ replicate 3 [0x0A] @ s2_lines_nl)
             = Inr \<lparr>filtered_examples = length (filter (\<lambda>e. fst (has_chinese_char e)) [e1]),
                    preprocessed_dataset = filter (\<lambda>e. \<not> fst (has_chinese_char e)) [e1],
                    ex = Some e2\<rparr>"
    by (rule conjunct1)
  then obtain e1 where "\<exists>e2.
            (\<forall>st. for_lines ascii_isdigit ascii_int st s1_lines = Inr (st\<lparr>ex := Some e1\<rparr>))
          \<and> (\<forall>st. for_lines ascii_isdigit ascii_int st s2_lines_nl = Inr (st\<lparr>ex := Some e2\<rparr>))
          \<and> (0 < (1::nat) \<longrightarrow>
               for_lines ascii_isdigit ascii_int initial_state
                 (s1_lines @ replicate 3 [0x0A] @ s2_lines_nl @ replicate 1 [0x0A])
               = Inr \<lparr>filtered_examples = length (filter (\<lambda>e. fst (has_chinese_char e)) [e1, e2]),
                      preprocessed_dataset = filter (\<lambda>e. \<not> fst (has_chinese_char e)) [e1, e2],
                      ex = None\<rparr>)
          \<and> for_lines ascii_isdigit ascii_int initial_state
               (s1_lines @ replicate 3 [0x0A] @ s2_lines_nl)
             = Inr \<lparr>filtered_examples = length (filter (\<lambda>e. fst (has_chinese_char e)) [e1]),
                    preprocessed_dataset = filter (\<lambda>e. \<not> fst (has_chinese_char e)) [e1],
                    ex = Some e2\<rparr>" ..
  then obtain e2 where c:
           "(\<forall>st. for_lines ascii_isdigit ascii_int st s1_lines = Inr (st\<lparr>ex := Some e1\<rparr>))
          \<and> (\<forall>st. for_lines ascii_isdigit ascii_int st s2_lines_nl = Inr (st\<lparr>ex := Some e2\<rparr>))
          \<and> (0 < (1::nat) \<longrightarrow>
               for_lines ascii_isdigit ascii_int initial_state
                 (s1_lines @ replicate 3 [0x0A] @ s2_lines_nl @ replicate 1 [0x0A])
               = Inr \<lparr>filtered_examples = length (filter (\<lambda>e. fst (has_chinese_char e)) [e1, e2]),
                      preprocessed_dataset = filter (\<lambda>e. \<not> fst (has_chinese_char e)) [e1, e2],
                      ex = None\<rparr>)
          \<and> for_lines ascii_isdigit ascii_int initial_state
               (s1_lines @ replicate 3 [0x0A] @ s2_lines_nl)
             = Inr \<lparr>filtered_examples = length (filter (\<lambda>e. fst (has_chinese_char e)) [e1]),
                    preprocessed_dataset = filter (\<lambda>e. \<not> fst (has_chinese_char e)) [e1],
                    ex = Some e2\<rparr>" ..
  note 1 = c [THEN conjunct1]
  note 2 = c [THEN conjunct2, THEN conjunct1]
  note 3 = c [THEN conjunct2, THEN conjunct2, THEN conjunct1]
  note 4 = c [THEN conjunct2, THEN conjunct2, THEN conjunct2]
  from 1 s1_run [of initial_state] have "e1 = s1_record"
    by (rule record_of_run)
  moreover from 2 s2_nl_run [of initial_state] have "e2 = s2_record"
    by (rule record_of_run)
  ultimately have "for_lines ascii_isdigit ascii_int initial_state
         (s1_lines @ replicate 3 [0x0A] @ s2_lines_nl @ replicate 1 [0x0A])
       = Inr \<lparr>filtered_examples = 1, preprocessed_dataset = [s1_record], ex = None\<rparr>"
    and "for_lines ascii_isdigit ascii_int initial_state (s1_lines @ replicate 3 [0x0A] @ s2_lines_nl)
       = Inr \<lparr>filtered_examples = 0, preprocessed_dataset = [s1_record], ex = Some s2_record\<rparr>"
    using 3 4 by (simp_all add: s1_accepted s2_filtered)
  with s1_block s2_nl_block readlines_three_blanks show ?thesis
    by blast
qed

text \<open>
  Claim C6. A token data line that does not split into exactly ten fields raises
  \<open>ValueError\<close> in whatever state it is met, so that the loop is left there; a dataset
  that contains such a line makes the function raise, with nothing written and nothing
  printed.
\<close>

theorem C6_malformed_token_line:
  assumes "token_data_line isdigit l" and "length (split 0x09 (strip l)) \<noteq> 10"
  shows "loop_body isdigit to_int st l = Inl ValueError
       \<and> (for_lines isdigit to_int st0 pre = Inr st \<longrightarrow>
            for_lines isdigit to_int st0 (pre @ l # post) = Inl ValueError)
       \<and> (datasets w fn = Some lines \<and> l \<in> set lines \<longrightarrow>
            (\<exists>err. get_examples_from_dataset isdigit to_int fn out w = (Some err, w)))"
proof -
  have 1: "loop_body isdigit to_int s l = Inl ValueError" for s
    using assms by (rule loop_body_malformed)
  then have 2: "for_lines isdigit to_int st0 pre = Inr st \<longrightarrow>
            for_lines isdigit to_int st0 (pre @ l # post) = Inl ValueError"
    by (simp add: for_lines_append)
  have 3: "\<exists>err. get_examples_from_dataset isdigit to_int fn out w = (Some err, w)"
    if "datasets w fn = Some lines" and "l \<in> set lines"
  proof -
    from that(2) 1 obtain err where "for_lines isdigit to_int initial_state lines = Inl err"
      using for_lines_raises [of l lines isdigit to_int initial_state] by blast
    with that(1) show ?thesis
      by (auto dest: get_examples_raises)
  qed
  from 1 2 3 show ?thesis by blast
qed

theorem C6_witness:
  "token_data_line ascii_isdigit short_line \<and> length (split 0x09 (strip short_line)) \<noteq> 10
   \<and> for_lines ascii_isdigit ascii_int initial_state (s1_lines @ short_line # [[0x0A]])
       = Inl ValueError
   \<and> (\<exists>err. get_examples_from_dataset ascii_isdigit ascii_int dev_conllu dev_json
               (scenario_world (s1_lines @ short_line # [[0x0A]]))
             = (Some err, scenario_world (s1_lines @ short_line # [[0x0A]])))"
proof -
  have n: "length (split 0x09 (strip short_line)) \<noteq> 10"
    by (simp add: short_cols)
  have d: "datasets (scenario_world (s1_lines @ short_line # [[0x0A]])) dev_conllu
             = Some (s1_lines @ short_line # [[0x0A]])"
    by (simp add: scenario_world_def dev_conllu_def)
  from C6_malformed_token_line [OF short_token n, of ascii_int _ initial_state s1_lines
      "[[0x0A]]" "scenario_world (s1_lines @ short_line # [[0x0A]])" dev_conllu
      "s1_lines @ short_line # [[0x0A]]" dev_json] d s1_run [of initial_state] short_token n
  show ?thesis by simp
qed




text \<open>
  Claim C8, which the code does not satisfy: a compound-span line with ten fields returns
  before the record is touched, so that it raises nothing when no record is open, and
  the run goes on.
\<close>

theorem C8_counterexample:
  "token_data_line ascii_isdigit del_line \<and> ex initial_state = None
   \<and> loop_body ascii_isdigit ascii_int initial_state del_line = Inr initial_state
   \<and> fst (get_examples_from_dataset ascii_isdigit ascii_int dev_conllu dev_json
            (scenario_world [del_line])) = None
   \<and> stdout (snd (get_examples_from_dataset ascii_isdigit ascii_int dev_conllu dev_json
            (scenario_world [del_line]))) = [Done]
   \<and> written (snd (get_examples_from_dataset ascii_isdigit ascii_int dev_conllu dev_json
            (scenario_world [del_line]))) dev_json = Some []"
proof -
  have 1: "loop_body ascii_isdigit ascii_int initial_state del_line = Inr initial_state"
    using del_token
    by (simp add: loop_body_token get_word_data_def del_cols initial_state_def) (simp add: u_def)
  then have "for_lines ascii_isdigit ascii_int initial_state [del_line] = Inr initial_state"
    by simp
  then show ?thesis
    using 1 del_token
    by (simp add: get_examples_from_dataset_def scenario_world_def dev_conllu_def
          initial_state_def)
qed

text \<open>
  Claim C8 as amended. A token data line met when no record is open raises \<open>TypeError\<close>
  on the absent record if it has ten fields and no \<open>-\<close> in its index, and then the
  function raises with nothing written; with another number of fields it raises
  \<open>ValueError\<close> at the unpacking; a compound-span line with ten fields is passed over.
\<close>

theorem C8_orphan_token_line:
  assumes "token_data_line isdigit l" and "ex st = None" and "cols = split 0x09 (strip l)"
  shows "loop_body isdigit to_int st l =
           (if length cols \<noteq> 10 then Inl ValueError
            else if 0x2D \<in> set (cols ! 0) then Inr st
            else Inl TypeError)
       \<and> (length cols = 10 \<and> 0x2D \<notin> set (cols ! 0) \<and> datasets w fn = Some (pre @ l # post)
            \<and> for_lines isdigit to_int initial_state pre = Inr st \<longrightarrow>
              get_examples_from_dataset isdigit to_int fn out w = (Some TypeError, w))"
proof -
  have 1: "loop_body isdigit to_int st l =
           (if length cols \<noteq> 10 then Inl ValueError
            else if 0x2D \<in> set (cols ! 0) then Inr st
            else Inl TypeError)"
    using assms by (simp add: loop_body_token get_word_data_def Let_def)
  then show ?thesis
    by (auto simp: for_lines_append intro!: get_examples_raises)
qed

theorem C8_witness:
  "token_data_line ascii_isdigit de_line \<and> ex initial_state = None
   \<and> loop_body ascii_isdigit ascii_int initial_state de_line = Inl TypeError
   \<and> get_examples_from_dataset ascii_isdigit ascii_int dev_conllu dev_json
       (scenario_world (de_line # s1_lines))
     = (Some TypeError, scenario_world (de_line # s1_lines))"
proof -
  have e: "ex initial_state = None"
    by (simp add: initial_state_def)
  have d: "datasets (scenario_world (de_line # s1_lines)) dev_conllu = Some ([] @ de_line # s1_lines)"
    by (simp add: scenario_world_def dev_conllu_def)
  from C8_orphan_token_line [OF de_token e refl, of ascii_int
      "scenario_world (de_line # s1_lines)" dev_conllu "[]" s1_lines dev_json] d e de_token
  show ?thesis
    by (simp add: de_cols) (simp add: u_def)
qed

text \<open>
  Claim C9. \<open>has_chinese_char\<close> depends on the words of the record only: two records
  with equal words get the same answer, whatever their identifier, heads and relations;
  and the record the caller holds after the call is the record it passed, with every
  field as it was.
\<close>

theorem C9_words_only:
  "(words a = words b \<longrightarrow> fst (has_chinese_char a) = fst (has_chinese_char b))
   \<and> fst (has_chinese_char (r\<lparr>ex_id := i, relns := rs, heads := hs\<rparr>)) = fst (has_chinese_char r)
   \<and> snd (has_chinese_char r) = r"
  by (simp add: has_chinese_char_eq)

theorem C9_witness:
  "fst (has_chinese_char (s2_record\<lparr>ex_id := u ''other'', relns := [], heads := [7]\<rparr>))
     = fst (has_chinese_char s2_record)
   \<and> fst (has_chinese_char
          \<lparr>ex_id = u ''x'', words = [[0x4F60, 0x597D]], relns = [], heads = []\<rparr>)
     = fst (has_chinese_char s2_record)
   \<and> has_chinese_char s2_record = (True, s2_record)"
proof -
  have "words \<lparr>ex_id = u ''x'', words = [[0x4F60, 0x597D]], relns = [], heads = []\<rparr>
          = words s2_record"
    by (simp add: s2_record_def)
  with C9_words_only [where a = "\<lparr>ex_id = u ''x'', words = [[0x4F60, 0x597D]], relns = [], heads = []\<rparr>"
      and b = s2_record and r = s2_record and i = "u ''other''" and rs = "[]" and hs = "[7]"]
    s2_filtered
  show ?thesis
    by (simp add: prod_eq_iff)
qed

text \<open>
  Claim C10. A sentence-identifier line met while a record is open replaces it by the
  new empty record; the output sequence and the filtered count stay as they are, and
  the rest of the run is the one from the state without an open record: the replaced
  record reaches neither the filter, nor the output, nor the count.
\<close>

theorem C10_open_record_replaced:
  assumes "sent_id_line l"
  shows "loop_body isdigit to_int (st\<lparr>ex := Some e\<rparr>) l =
           Inr (st\<lparr>ex := Some \<lparr>ex_id = last (split 0x20 (strip l)),
                                 words = [], relns = [], heads = []\<rparr>\<rparr>)
       \<and> for_lines isdigit to_int (st\<lparr>ex := Some e\<rparr>) (l # rest) =
           for_lines isdigit to_int (st\<lparr>ex := None\<rparr>) (l # rest)"
  using assms by (simp add: loop_body_sent_id)

theorem C10_witness:
  "sent_id_line s2_id_line
   \<and> loop_body ascii_isdigit ascii_int
       \<lparr>filtered_examples = 0, preprocessed_dataset = [], ex = Some s1_record\<rparr> s2_id_line
     = Inr \<lparr>filtered_examples = 0, preprocessed_dataset = [],
            ex = Some \<lparr>ex_id = u ''s2'', words = [], relns = [], heads = []\<rparr>\<rparr>"
  using C10_open_record_replaced [OF s2_id_sent_id, where isdigit = ascii_isdigit
      and to_int = ascii_int and e = s1_record and rest = "[]"
      and st = "\<lparr>filtered_examples = 0, preprocessed_dataset = [], ex = None\<rparr>"]
    s2_id_sent_id
  by (simp add: s2_id_field)

end
